theory Spec2Isabelle
  imports Main "HOL-Library.List_Lexorder" "HOL-Library.Multiset"
begin

section \<open>Values of the Python program\<close>

text \<open>
  A Python string is a sequence of Unicode code points; it is modelled as the list of its
  code points, so that \<open>length\<close> counts characters and slicing is \<open>take\<close>.  The order on
  such lists (lexicographic, by code point) is the one Python uses to compare strings.
  A literal of the source is written \<open>u ''...''\<close>.
\<close>

type_synonym pystr = "nat list"

definition u :: "string \<Rightarrow> pystr" where
  "u s = map of_char s"

text \<open>
  What \<open>response.json()\<close> yields: a decoded JSON value.  A dictionary is an association
  list read with \<open>map_of\<close>.  Numbers are integers: the payload of the starred-repositories
  endpoint carries no fractional number.
\<close>

datatype json =
    JNull
  | JBool bool
  | JInt int
  | JStr pystr
  | JList "json list"
  | JObj "(pystr \<times> json) list"

text \<open>
  The exceptions the modelled code can raise.  \<open>Unmodelled\<close> is not an exception: it is
  the outcome on the few ill-typed inputs (a list or a dictionary where a string is
  expected) whose behaviour in Python the model does not follow.
\<close>

datatype pyerr =
    KeyError
  | TypeError
  | AttributeError
  | ValueError
  | HTTPError
  | ConnectionError
  | JSONDecodeError
  | OSError
  | UnicodeEncodeError
  | Unmodelled

text \<open>Python's truth value of an object, as used by \<open>if x\<close>, \<open>x or y\<close> and \<open>not x\<close>.\<close>

fun truthy :: "json \<Rightarrow> bool" where
  "truthy JNull = False"
| "truthy (JBool b) = b"
| "truthy (JInt n) = (n \<noteq> 0)"
| "truthy (JStr s) = (s \<noteq> [])"
| "truthy (JList xs) = (xs \<noteq> [])"
| "truthy (JObj d) = (d \<noteq> [])"

text \<open>\<open>d.get(k, dflt)\<close> on a dictionary: the default is used only when the key is absent.\<close>

definition py_get :: "(pystr \<times> json) list \<Rightarrow> pystr \<Rightarrow> json \<Rightarrow> json" where
  "py_get d k dflt = (case map_of d k of None \<Rightarrow> dflt | Some v \<Rightarrow> v)"

text \<open>\<open>d[k]\<close> on a dictionary raises \<open>KeyError\<close> when the key is absent.\<close>

definition py_getitem :: "(pystr \<times> json) list \<Rightarrow> pystr \<Rightarrow> pyerr + json" where
  "py_getitem d k = (case map_of d k of None \<Rightarrow> Inl KeyError | Some v \<Rightarrow> Inr v)"

text \<open>
  \<open>x.get(k)\<close> on an arbitrary value: only a dictionary has the method, every other value
  (\<open>None\<close> included) raises \<open>AttributeError\<close>.
\<close>

definition attr_get :: "json \<Rightarrow> pystr \<Rightarrow> pyerr + json" where
  "attr_get x k = (case x of JObj d \<Rightarrow> Inr (py_get d k JNull) | _ \<Rightarrow> Inl AttributeError)"

section \<open>The normalizer: the loop body of \<open>export_to_json\<close>\<close>

text \<open>
  The dictionary \<open>repo_data\<close> built for each entry.  Its values are whatever the raw entry
  held, so every field is a JSON value.
\<close>

record repo_data =
  name :: json
  description :: json
  url :: json
  language :: json
  stars :: json
  forks :: json
  open_issues :: json
  topics :: json
  created_at :: json
  updated_at :: json
  starred_at :: json
  archived :: json
  owner :: json
  owner_type :: json
  license :: json
  homepage :: json

text \<open>
  The dictionary display \<open>repo_data = {...}\<close> for the repository source \<open>r\<close>.  The entries
  are evaluated in the order written: \<open>r["full_name"]\<close> and \<open>r["html_url"]\<close> (a value that
  is not a dictionary cannot be subscripted by a string: \<open>TypeError\<close>; a missing key:
  \<open>KeyError\<close>), then the two \<open>r.get("owner", {}).get(...)\<close>, then the license.
\<close>

definition license_name :: "(pystr \<times> json) list \<Rightarrow> pyerr + json" where
  "license_name d =
     (if truthy (py_get d (u ''license'') JNull)
      then attr_get (py_get d (u ''license'') (JObj [])) (u ''name'')
      else Inr JNull)"

definition make_repo_data :: "json \<Rightarrow> json \<Rightarrow> pyerr + repo_data" where
  "make_repo_data r starred =
     (case r of
        JObj d \<Rightarrow>
          (case py_getitem d (u ''full_name'') of Inl e \<Rightarrow> Inl e | Inr nm \<Rightarrow>
          (case py_getitem d (u ''html_url'') of Inl e \<Rightarrow> Inl e | Inr ur \<Rightarrow>
          (case attr_get (py_get d (u ''owner'') (JObj [])) (u ''login'') of Inl e \<Rightarrow> Inl e | Inr ow \<Rightarrow>
          (case attr_get (py_get d (u ''owner'') (JObj [])) (u ''type'') of Inl e \<Rightarrow> Inl e | Inr owt \<Rightarrow>
          (case license_name d of Inl e \<Rightarrow> Inl e | Inr lic \<Rightarrow>
             Inr \<lparr> name = nm,
                   description = py_get d (u ''description'') JNull,
                   url = ur,
                   language = py_get d (u ''language'') JNull,
                   stars = py_get d (u ''stargazers_count'') (JInt 0),
                   forks = py_get d (u ''forks_count'') (JInt 0),
                   open_issues = py_get d (u ''open_issues_count'') (JInt 0),
                   topics = py_get d (u ''topics'') (JList []),
                   created_at = py_get d (u ''created_at'') JNull,
                   updated_at = py_get d (u ''updated_at'') JNull,
                   starred_at = starred,
                   archived = py_get d (u ''archived'') (JBool False),
                   owner = ow,
                   owner_type = owt,
                   license = lic,
                   homepage = py_get d (u ''homepage'') JNull \<rparr>)))))
      | _ \<Rightarrow> Inl TypeError)"

text \<open>
  One iteration of \<open>for item in repos\<close>.  For a dictionary, \<open>"repo" in item\<close> tests the key.
  An item that is not a dictionary never gets through: \<open>in\<close> raises \<open>TypeError\<close> on
  \<open>None\<close>, a boolean or a number, and on a string or a list either \<open>item["repo"]\<close> or
  \<open>item["full_name"]\<close> raises \<open>TypeError\<close>.
\<close>

definition normalize_entry :: "json \<Rightarrow> pyerr + repo_data" where
  "normalize_entry item =
     (case item of
        JObj d \<Rightarrow>
          (case map_of d (u ''repo'') of
             Some r \<Rightarrow> make_repo_data r (py_get d (u ''starred_at'') JNull)
           | None \<Rightarrow> make_repo_data item JNull)
      | _ \<Rightarrow> Inl TypeError)"

text \<open>The whole loop: the first entry that raises ends it.\<close>

fun normalize_all :: "json list \<Rightarrow> pyerr + repo_data list" where
  "normalize_all [] = Inr []"
| "normalize_all (item # items) =
     (case normalize_entry item of
        Inl e \<Rightarrow> Inl e
      | Inr rd \<Rightarrow> (case normalize_all items of Inl e \<Rightarrow> Inl e | Inr rds \<Rightarrow> Inr (rd # rds)))"






section \<open>Display width and padding\<close>

text \<open>
  \<open>unicodedata.east_asian_width\<close> belongs to Python's standard library, not to the
  repository: its table is the parameter \<open>ea\<close>, from a code point to one of the six
  classes the library returns.
\<close>

datatype eaw = EA_F | EA_H | EA_W | EA_Na | EA_A | EA_N

text \<open>
  The loop of \<open>display_width\<close>, with the running \<open>width\<close> as accumulator; the two
  \<open>continue\<close> branches leave it unchanged.
\<close>

fun display_width_loop :: "(nat \<Rightarrow> eaw) \<Rightarrow> pystr \<Rightarrow> nat \<Rightarrow> nat" where
  "display_width_loop ea [] width = width"
| "display_width_loop ea (c # cs) width =
     (if 0xFE00 \<le> c \<and> c \<le> 0xFE0F then display_width_loop ea cs width
      else if c = 0x200D then display_width_loop ea cs width
      else if ea c = EA_W \<or> ea c = EA_F then display_width_loop ea cs (width + 2)
      else if c > 0x1F300 then display_width_loop ea cs (width + 2)
      else display_width_loop ea cs (width + 1))"

definition display_width :: "(nat \<Rightarrow> eaw) \<Rightarrow> pystr \<Rightarrow> nat" where
  "display_width ea s = display_width_loop ea s 0"

text \<open>
  The width of one character in the words of the specification, and the width of a
  string as the sum over its characters; \<open>display_width\<close> is compared with it below.
\<close>

definition spec_char_width :: "(nat \<Rightarrow> eaw) \<Rightarrow> nat \<Rightarrow> nat" where
  "spec_char_width ea c =
     (if c \<in> {0xFE00 .. 0xFE0F} then 0
      else if c = 0x200D then 0
      else if ea c \<in> {EA_W, EA_F} then 2
      else if 0x1F300 < c then 2
      else 1)"

definition spec_display_width :: "(nat \<Rightarrow> eaw) \<Rightarrow> pystr \<Rightarrow> nat" where
  "spec_display_width ea s = sum_list (map (spec_char_width ea) s)"

definition ascii_letter :: "nat \<Rightarrow> bool" where
  "ascii_letter c = ((0x41 \<le> c \<and> c \<le> 0x5A) \<or> (0x61 \<le> c \<and> c \<le> 0x7A))"

definition variation_selector :: "nat \<Rightarrow> bool" where
  "variation_selector c = (0xFE00 \<le> c \<and> c \<le> 0xFE0F)"

text \<open>
  What the Unicode table says of printable ASCII (U+0020 to U+007E): every such
  character is narrow (class \<open>Na\<close>).  The theorems that need the width of a space or of a
  letter assume this much of \<open>ea\<close>.
\<close>

definition ascii_narrow :: "(nat \<Rightarrow> eaw) \<Rightarrow> bool" where
  "ascii_narrow ea = list_all (\<lambda>c. ea c = EA_Na) [0x20 ..< 0x7F]"

text \<open>\<open>s * n\<close> on a string: the empty string when \<open>n\<close> is zero or negative.\<close>

definition py_repeat :: "pystr \<Rightarrow> int \<Rightarrow> pystr" where
  "py_repeat s n = (if n \<le> 0 then [] else concat (replicate (nat n) s))"

definition pad_line :: "(nat \<Rightarrow> eaw) \<Rightarrow> pystr \<Rightarrow> int \<Rightarrow> pystr" where
  "pad_line ea content total_width =
     (let current_width = int (display_width ea content);
          padding_needed = total_width - current_width
      in content @ py_repeat (u '' '') padding_needed)"

text \<open>A table that is narrow everywhere but on the Hangul Jamo block, for the examples.\<close>

definition ea_example :: "nat \<Rightarrow> eaw" where
  "ea_example c = (if 0x1100 \<le> c \<and> c \<le> 0x115F then EA_W
                   else if 0x20 \<le> c \<and> c < 0x7F then EA_Na else EA_N)"

section \<open>Fetching and the entry point\<close>














section \<open>The aggregations of \<open>print_recap\<close>\<close>

subsection \<open>The language histogram\<close>

text \<open>
  A \<open>Counter\<close> is a dictionary from key to count, in order of first insertion.  Keys are
  compared as Python compares dictionary keys: \<open>True\<close> and \<open>1\<close> are one key, as are
  \<open>False\<close> and \<open>0\<close>.  A list or a dictionary cannot be a key (\<open>TypeError\<close>: unhashable).
\<close>

fun hashable :: "json \<Rightarrow> bool" where
  "hashable (JList xs) = False"
| "hashable (JObj d) = False"
| "hashable v = True"

fun key_eq :: "json \<Rightarrow> json \<Rightarrow> bool" where
  "key_eq (JBool a) (JInt n) = ((if a then 1 else 0) = n)"
| "key_eq (JInt n) (JBool a) = (n = (if a then 1 else 0))"
| "key_eq x y = (x = y)"

fun counter_add :: "json \<Rightarrow> (json \<times> nat) list \<Rightarrow> (json \<times> nat) list" where
  "counter_add k [] = [(k, 1)]"
| "counter_add k ((k', n) # rest) =
     (if key_eq k k' then (k', n + 1) # rest else (k', n) # counter_add k rest)"

fun counter_update :: "json list \<Rightarrow> (json \<times> nat) list \<Rightarrow> pyerr + (json \<times> nat) list" where
  "counter_update [] h = Inr h"
| "counter_update (k # ks) h =
     (if hashable k then counter_update ks (counter_add k h) else Inl TypeError)"

definition Counter :: "json list \<Rightarrow> pyerr + (json \<times> nat) list" where
  "Counter ks = counter_update ks []"

text \<open>\<open>Counter(r["language"] for r in repos if r["language"])\<close>.\<close>

definition languages :: "repo_data list \<Rightarrow> pyerr + (json \<times> nat) list" where
  "languages repos = Counter (map language (filter (\<lambda>r. truthy (language r)) repos))"

text \<open>\<open>counts[k]\<close> on a \<open>Counter\<close>: zero for a key that was never counted.\<close>

fun counter_get :: "(json \<times> nat) list \<Rightarrow> json \<Rightarrow> nat" where
  "counter_get [] k = 0"
| "counter_get ((k', n) # rest) k = (if key_eq k k' then n else counter_get rest k)"

subsection \<open>Rankings\<close>

text \<open>
  \<open>sorted(xs, key=..., reverse=True)\<close>.  The sort is stable and \<open>reverse\<close> keeps it so:
  the list is reversed, sorted in ascending order, and reversed again, so that elements
  with equal keys keep their original order.  With fewer than two elements nothing is
  compared.  Otherwise strings compare with strings and numbers (booleans included)
  with numbers; \<open>None\<close>, a dictionary, or a mix of kinds raises \<open>TypeError\<close>.  Keys that are
  all lists are outside the model.
\<close>

fun is_str :: "json \<Rightarrow> bool" where
  "is_str (JStr s) = True"
| "is_str v = False"

fun is_num :: "json \<Rightarrow> bool" where
  "is_num (JInt n) = True"
| "is_num (JBool b) = True"
| "is_num v = False"

fun is_list :: "json \<Rightarrow> bool" where
  "is_list (JList xs) = True"
| "is_list v = False"

fun str_of :: "json \<Rightarrow> pystr" where
  "str_of (JStr s) = s"
| "str_of v = []"

fun num_of :: "json \<Rightarrow> int" where
  "num_of (JInt n) = n"
| "num_of (JBool b) = (if b then 1 else 0)"
| "num_of v = 0"

definition sorted_reverse :: "('a \<Rightarrow> json) \<Rightarrow> 'a list \<Rightarrow> pyerr + 'a list" where
  "sorted_reverse key xs =
     (if length xs \<le> 1 then Inr xs
      else if list_all (\<lambda>x. is_str (key x)) xs
        then Inr (rev (sort_key (\<lambda>x. str_of (key x)) (rev xs)))
      else if list_all (\<lambda>x. is_num (key x)) xs
        then Inr (rev (sort_key (\<lambda>x. num_of (key x)) (rev xs)))
      else if list_all (\<lambda>x. is_list (key x)) xs then Inl Unmodelled
      else Inl TypeError)"

text \<open>The key \<open>r["updated_at"] or ""\<close> and the ranking of line 155, before and after \<open>[:10]\<close>.\<close>

definition updated_key :: "repo_data \<Rightarrow> json" where
  "updated_key r = (if truthy (updated_at r) then updated_at r else JStr [])"

definition sorted_by_updated :: "repo_data list \<Rightarrow> pyerr + repo_data list" where
  "sorted_by_updated repos = sorted_reverse updated_key repos"

definition by_updated :: "repo_data list \<Rightarrow> pyerr + repo_data list" where
  "by_updated repos =
     (case sorted_by_updated repos of Inl e \<Rightarrow> Inl e | Inr xs \<Rightarrow> Inr (take 10 xs))"

text \<open>The ranking of line 143, by \<open>r["stars"]\<close>.\<close>

definition by_stars :: "repo_data list \<Rightarrow> pyerr + repo_data list" where
  "by_stars repos =
     (case sorted_reverse stars repos of Inl e \<Rightarrow> Inl e | Inr xs \<Rightarrow> Inr (take 10 xs))"

section \<open>The lines of the report\<close>

text \<open>
  The format specifications \<open><45\<close> and \<open>>10\<close> on a string pad it with spaces up to
  the width, on the right and on the left; a longer string is left as it is.
\<close>

definition ljust :: "nat \<Rightarrow> pystr \<Rightarrow> pystr" where
  "ljust w s = s @ replicate (w - length s) 0x20"

definition rjust :: "nat \<Rightarrow> pystr \<Rightarrow> pystr" where
  "rjust w s = replicate (w - length s) 0x20 @ s"

text \<open>
  The format specification \<open>,\<close> on an integer: its decimal digits in groups of three
  from the right, separated by commas, after the sign.
\<close>

fun dec_digits :: "nat \<Rightarrow> pystr" where
  "dec_digits n = (if n < 10 then [0x30 + n] else dec_digits (n div 10) @ [0x30 + n mod 10])"

fun group_thousands :: "pystr \<Rightarrow> pystr" where
  "group_thousands ds =
     (if length ds \<le> 3 then ds
      else group_thousands (take (length ds - 3) ds) @ [0x2C] @ drop (length ds - 3) ds)"

definition format_comma :: "int \<Rightarrow> pystr" where
  "format_comma n =
     (if n < 0 then 0x2D # group_thousands (dec_digits (nat (- n)))
      else group_thousands (dec_digits (nat n)))"

text \<open>
  \<open>f"{v:,}"\<close> on a value of the record: an integer is grouped, a boolean is formatted as
  the integer it is, a string refuses the comma (\<open>ValueError\<close>), and \<open>None\<close>, a list or a
  dictionary accept no format specification (\<open>TypeError\<close>).
\<close>

fun format_count :: "json \<Rightarrow> pyerr + pystr" where
  "format_count (JInt n) = Inr (format_comma n)"
| "format_count (JBool b) = Inr (format_comma (if b then 1 else 0))"
| "format_count (JStr s) = Inl ValueError"
| "format_count v = Inl TypeError"

text \<open>
  The body of the loop over \<open>by_stars\<close> (lines 148 to 150): the line of one record in the
  popularity panel, before \<open>pad_line\<close>.  The name is sliced, then the stars are
  formatted, then the line is put together.  \<open>None\<close> and numbers cannot be sliced; a list
  can, but does not accept \<open><45\<close>.  Slicing a dictionary raises an exception whose class
  depends on the version of Python.
\<close>

definition popular_line :: "repo_data \<Rightarrow> pyerr + pystr" where
  "popular_line r =
     (case name r of
        JStr n \<Rightarrow>
          (case format_count (stars r) of
             Inl e \<Rightarrow> Inl e
           | Inr st \<Rightarrow> Inr (u ''  '' @ ljust 45 (take 45 n) @ [0x20, 0x2B50, 0x20] @ rjust 10 st))
      | JList xs \<Rightarrow> (case format_count (stars r) of Inl e \<Rightarrow> Inl e | Inr st \<Rightarrow> Inl TypeError)
      | JObj d \<Rightarrow> Inl Unmodelled
      | _ \<Rightarrow> Inl TypeError)"

text \<open>
  The body of the loop over \<open>by_updated\<close> (lines 160 to 162).  \<open>updated\<close> is sliced first,
  then the name.  A list for \<open>updated\<close> is printed in a form the model leaves out.
\<close>

definition recent_line :: "repo_data \<Rightarrow> pyerr + pystr" where
  "recent_line r =
     (case updated_key r of
        JStr up \<Rightarrow>
          (case name r of
             JStr n \<Rightarrow> Inr (u ''  '' @ ljust 55 (take 55 n) @ [0x20] @ take 10 up)
           | JObj d \<Rightarrow> Inl Unmodelled
           | _ \<Rightarrow> Inl TypeError)
      | JList xs \<Rightarrow>
          (case name r of
             JStr n \<Rightarrow> Inl Unmodelled
           | JObj d \<Rightarrow> Inl Unmodelled
           | _ \<Rightarrow> Inl TypeError)
      | JObj d \<Rightarrow> Inl Unmodelled
      | _ \<Rightarrow> Inl TypeError)"

text \<open>
  The full listing (lines 201 to 206).  The sort key \<open>r["name"].lower()\<close> is computed for
  every record before the first line is printed, so a name that is not a string raises
  \<open>AttributeError\<close> there.  The first line printed for a record holds its name, the
  second its description when there is one.
\<close>

definition listing_name_line :: "repo_data \<Rightarrow> pyerr + pystr" where
  "listing_name_line r =
     (case name r of
        JStr n \<Rightarrow> Inr (u ''  '' @ [0x1F4C1, 0x20] @ n)
      | _ \<Rightarrow> Inl AttributeError)"

definition listing_desc_line :: "repo_data \<Rightarrow> pyerr + pystr option" where
  "listing_desc_line r =
     (if truthy (description r)
      then (case description r of
              JStr d \<Rightarrow>
                Inr (Some (u ''     '' @ take 74 d @ (if length d > 74 then u ''...'' else [])))
            | JList xs \<Rightarrow> Inl Unmodelled
            | JObj d \<Rightarrow> Inl Unmodelled
            | _ \<Rightarrow> Inl TypeError)
      else Inr None)"

text \<open>Records for the examples.\<close>

definition repo_example :: "pystr \<Rightarrow> json \<Rightarrow> json \<Rightarrow> repo_data" where
  "repo_example n lang upd =
     \<lparr> name = JStr n, description = JNull, url = JStr (u ''https://x''), language = lang,
       stars = JInt 0, forks = JInt 0, open_issues = JInt 0, topics = JList [],
       created_at = JNull, updated_at = upd, starred_at = JNull, archived = JBool False,
       owner = JNull, owner_type = JNull, license = JNull, homepage = JNull \<rparr>"

section \<open>The specification's reading of the normalizer, and example entries\<close>

text \<open>
  The optional fields that are copied from the repository source: the key read, the
  field of the record it fills, and the default the specification documents for it.
\<close>

definition optional_fields :: "(pystr \<times> (repo_data \<Rightarrow> json) \<times> json) list" where
  "optional_fields =
     [(u ''description'', description, JNull),
      (u ''language'', language, JNull),
      (u ''stargazers_count'', stars, JInt 0),
      (u ''forks_count'', forks, JInt 0),
      (u ''open_issues_count'', open_issues, JInt 0),
      (u ''topics'', topics, JList []),
      (u ''created_at'', created_at, JNull),
      (u ''updated_at'', updated_at, JNull),
      (u ''archived'', archived, JBool False),
      (u ''homepage'', homepage, JNull)]"

text \<open>
  The repository source of an entry, as the specification describes the two shapes: the
  nested object when the wrapper key is present, the whole entry otherwise.
\<close>

definition repo_source :: "(pystr \<times> json) list \<Rightarrow> json" where
  "repo_source entry =
     (case map_of entry (u ''repo'') of Some r \<Rightarrow> r | None \<Rightarrow> JObj entry)"

text \<open>
  The nested values the normalizer unwraps without raising: an owner that is absent or
  an object, a license that is absent, falsy or an object.
\<close>

fun is_obj :: "json \<Rightarrow> bool" where
  "is_obj (JObj d) = True"
| "is_obj v = False"

definition owner_ok :: "(pystr \<times> json) list \<Rightarrow> bool" where
  "owner_ok d = (case map_of d (u ''owner'') of None \<Rightarrow> True | Some v \<Rightarrow> is_obj v)"

definition license_ok :: "(pystr \<times> json) list \<Rightarrow> bool" where
  "license_ok d =
     (case map_of d (u ''license'') of None \<Rightarrow> True | Some v \<Rightarrow> \<not> truthy v \<or> is_obj v)"

definition wrapper_entry :: json where
  "wrapper_entry =
     JObj [(u ''repo'', JObj [(u ''full_name'', JStr (u ''a/b'')),
                              (u ''html_url'', JStr (u ''https://x'')),
                              (u ''stargazers_count'', JInt 5)]),
           (u ''starred_at'', JStr (u ''2024-01-01T00:00:00Z''))]"

definition bare_entry :: json where
  "bare_entry = JObj [(u ''full_name'', JStr (u ''c/d'')), (u ''html_url'', JStr (u ''https://y''))]"

text \<open>
  The fields of a wrapper-shaped entry that has no \<open>starred_at\<close> beside the wrapper
  key, and the fields of a bare entry.
\<close>

definition lone_wrapper_fields :: "(pystr \<times> json) list" where
  "lone_wrapper_fields =
     [(u ''repo'', JObj [(u ''full_name'', JStr (u ''a/b'')),
                         (u ''html_url'', JStr (u ''https://x'')),
                         (u ''stargazers_count'', JInt 5)])]"

definition bare_fields :: "(pystr \<times> json) list" where
  "bare_fields = [(u ''full_name'', JStr (u ''c/d'')), (u ''html_url'', JStr (u ''https://y''))]"

definition null_fields_entry :: "(pystr \<times> json) list" where
  "null_fields_entry =
     [(u ''full_name'', JStr (u ''a/b'')), (u ''html_url'', JStr (u ''https://x'')),
      (u ''stargazers_count'', JNull), (u ''topics'', JNull), (u ''archived'', JNull)]"

definition null_owner_entry :: json where
  "null_owner_entry =
     JObj [(u ''full_name'', JStr (u ''a/b'')), (u ''html_url'', JStr (u ''https://x'')),
           (u ''owner'', JNull)]"

section \<open>What the remote side does during a run\<close>




section \<open>Measures and example records for the report\<close>

text \<open>
  The total of a histogram, and the two counts of records it is compared with: those
  whose language is not null, and those whose language is truthy.
\<close>

definition histogram_total :: "(json \<times> nat) list \<Rightarrow> nat" where
  "histogram_total h = sum_list (map snd h)"

definition non_null_languages :: "repo_data list \<Rightarrow> nat" where
  "non_null_languages repos = length (filter (\<lambda>r. language r \<noteq> JNull) repos)"

definition truthy_languages :: "repo_data list \<Rightarrow> nat" where
  "truthy_languages repos = length (filter (\<lambda>r. truthy (language r)) repos)"

text \<open>
  Records typed as the specification types them, with a language that is null or a
  string, and the number of them whose language is neither null nor the empty string.
\<close>

definition language_typed :: "repo_data \<Rightarrow> bool" where
  "language_typed r = (language r = JNull \<or> is_str (language r))"

definition named_languages :: "repo_data list \<Rightarrow> nat" where
  "named_languages repos =
     length (filter (\<lambda>r. language r \<noteq> JNull \<and> language r \<noteq> JStr []) repos)"

definition long_name :: pystr where
  "long_name = replicate 56 0x61"

definition long_description :: pystr where
  "long_description = replicate 80 0x62"

definition language_examples :: "repo_data list" where
  "language_examples =
     [repo_example (u ''a/a'') (JStr (u ''Go'')) JNull,
      repo_example (u ''a/b'') JNull JNull,
      repo_example (u ''a/c'') (JStr (u ''Go'')) JNull,
      repo_example (u ''a/d'') (JStr []) JNull,
      repo_example (u ''a/e'') (JStr (u ''Rust'')) JNull]"

definition recency_examples :: "repo_data list" where
  "recency_examples =
     [repo_example (u ''a/a'') JNull JNull,
      repo_example (u ''a/b'') JNull (JStr (u ''2023-07-01T00:00:00Z'')),
      repo_example (u ''a/c'') JNull (JStr (u ''2024-02-01T00:00:00Z''))]"

definition long_repo :: repo_data where
  "long_repo = (repo_example long_name JNull JNull) \<lparr> description := JStr long_description \<rparr>"

section \<open>Theorems: the normalizer\<close>

lemmas normalizer_defs =
  normalize_entry_def make_repo_data_def py_get_def py_getitem_def attr_get_def license_name_def

lemma owner_ok_get:
  "owner_ok d \<Longrightarrow>
     attr_get (py_get d (u ''owner'') (JObj [])) k =
       Inr (case map_of d (u ''owner'') of Some (JObj ob) \<Rightarrow> py_get ob k JNull | _ \<Rightarrow> JNull)"
  by (auto simp: owner_ok_def attr_get_def py_get_def split: option.splits json.splits)

lemma license_ok_get:
  "license_ok d \<Longrightarrow>
     license_name d =
       Inr (case map_of d (u ''license'') of
              Some (JObj l) \<Rightarrow> py_get l (u ''name'') JNull | _ \<Rightarrow> JNull)"
  by (auto simp: license_ok_def license_name_def attr_get_def py_get_def
           split: option.splits json.splits)

lemma make_repo_data_ok:
  assumes "map_of d (u ''full_name'') = Some nm" and "map_of d (u ''html_url'') = Some ur"
    and "owner_ok d" and "license_ok d"
  shows "\<exists>rd. make_repo_data (JObj d) st = Inr rd \<and> name rd = nm \<and> url rd = ur
           \<and> starred_at rd = st
           \<and> (\<forall>(k, f, dflt) \<in> set optional_fields.
                 (map_of d k = None \<longrightarrow> f rd = dflt) \<and> (\<forall>v. map_of d k = Some v \<longrightarrow> f rd = v))
           \<and> owner rd = (case map_of d (u ''owner'') of
                           Some (JObj ob) \<Rightarrow> py_get ob (u ''login'') JNull | _ \<Rightarrow> JNull)
           \<and> owner_type rd = (case map_of d (u ''owner'') of
                                Some (JObj ob) \<Rightarrow> py_get ob (u ''type'') JNull | _ \<Rightarrow> JNull)
           \<and> license rd = (case map_of d (u ''license'') of
                             Some (JObj l) \<Rightarrow> py_get l (u ''name'') JNull | _ \<Rightarrow> JNull)"
  using assms(1,2) owner_ok_get[OF assms(3)] license_ok_get[OF assms(4)]
  by (simp add: make_repo_data_def py_getitem_def optional_fields_def py_get_def)

text \<open>
  Claim C1, as amended.  For an entry of either shape whose repository source \<open>d\<close> holds
  the two required keys, an owner that is absent or an object and a license that is
  absent, falsy or an object, the normalizer returns a record, and each optional field
  of it is the documented default when its key is absent from \<open>d\<close> and the raw value,
  whatever it is, when the key is present: a null is kept, not replaced.  The owner and
  the license are unwrapped to the login, type and name, null when there is none, and
  \<open>starred_at\<close> is the wrapper's sibling value, null for a bare entry.
\<close>

theorem normalize_entry_optional_fields:
  assumes "repo_source entry = JObj d"
    and "map_of d (u ''full_name'') = Some nm" and "map_of d (u ''html_url'') = Some ur"
    and "owner_ok d" and "license_ok d"
  shows "\<exists>rd. normalize_entry (JObj entry) = Inr rd \<and> name rd = nm \<and> url rd = ur
           \<and> starred_at rd = (case map_of entry (u ''repo'') of
                                 None \<Rightarrow> JNull | Some r \<Rightarrow> py_get entry (u ''starred_at'') JNull)
           \<and> (\<forall>(k, f, dflt) \<in> set optional_fields.
                 (map_of d k = None \<longrightarrow> f rd = dflt) \<and> (\<forall>v. map_of d k = Some v \<longrightarrow> f rd = v))
           \<and> owner rd = (case map_of d (u ''owner'') of
                           Some (JObj ob) \<Rightarrow> py_get ob (u ''login'') JNull | _ \<Rightarrow> JNull)
           \<and> owner_type rd = (case map_of d (u ''owner'') of
                                Some (JObj ob) \<Rightarrow> py_get ob (u ''type'') JNull | _ \<Rightarrow> JNull)
           \<and> license rd = (case map_of d (u ''license'') of
                             Some (JObj l) \<Rightarrow> py_get l (u ''name'') JNull | _ \<Rightarrow> JNull)"
proof (cases "map_of entry (u ''repo'')")
  case None
  then have "entry = d" and "normalize_entry (JObj entry) = make_repo_data (JObj d) JNull"
    using assms(1) by (simp_all add: repo_source_def normalize_entry_def)
  then show ?thesis
    using make_repo_data_ok[OF assms(2-5), of JNull] None by simp
next
  case (Some r)
  then have "r = JObj d"
    and "normalize_entry (JObj entry) =
           make_repo_data (JObj d) (py_get entry (u ''starred_at'') JNull)"
    using assms(1) by (simp_all add: repo_source_def normalize_entry_def)
  then show ?thesis
    using make_repo_data_ok[OF assms(2-5), of "py_get entry (u ''starred_at'') JNull"] Some
    by simp
qed

theorem normalize_entry_optional_fields_witness:
  "\<exists>rd. normalize_entry (JObj null_fields_entry) = Inr rd
      \<and> stars rd = JNull \<and> topics rd = JNull \<and> archived rd = JNull
      \<and> forks rd = JInt 0 \<and> open_issues rd = JInt 0 \<and> language rd = JNull"
proof -
  have src: "repo_source null_fields_entry = JObj null_fields_entry"
    by (simp add: repo_source_def null_fields_entry_def u_def)
  have nm: "map_of null_fields_entry (u ''full_name'') = Some (JStr (u ''a/b''))"
    by (simp add: null_fields_entry_def u_def)
  have ur: "map_of null_fields_entry (u ''html_url'') = Some (JStr (u ''https://x''))"
    by (simp add: null_fields_entry_def u_def)
  have ow: "owner_ok null_fields_entry"
    by (simp add: owner_ok_def null_fields_entry_def u_def)
  have li: "license_ok null_fields_entry"
    by (simp add: license_ok_def null_fields_entry_def u_def)
  from normalize_entry_optional_fields[OF src nm ur ow li]
  obtain rd where rd: "normalize_entry (JObj null_fields_entry) = Inr rd"
    and tab: "\<forall>(k, f, dflt) \<in> set optional_fields.
                (map_of null_fields_entry k = None \<longrightarrow> f rd = dflt)
              \<and> (\<forall>v. map_of null_fields_entry k = Some v \<longrightarrow> f rd = v)"
    by blast
  from tab have "stars rd = JNull" "topics rd = JNull" "archived rd = JNull"
    "forks rd = JInt 0" "open_issues rd = JInt 0" "language rd = JNull"
    by (simp_all add: optional_fields_def null_fields_entry_def u_def)
  with rd show ?thesis by blast
qed

text \<open>
  Claim C1 as stated fails: a \<open>stargazers_count\<close> that is present with the value null
  gives a record whose \<open>stars\<close> is null, not the default 0.
\<close>

theorem normalize_entry_null_stars_kept:
  "map_sum id stars (normalize_entry (JObj null_fields_entry)) = Inr JNull
     \<and> map_sum id stars (normalize_entry (JObj null_fields_entry)) \<noteq> Inr (JInt 0)"
  by (simp add: null_fields_entry_def normalizer_defs u_def)

text \<open>
  Claim C2 fails on the code: an entry whose \<open>owner\<close> is present with the value null makes
  \<open>r.get("owner", {}).get("login")\<close> raise \<open>AttributeError\<close>, although the entry holds both
  required keys.  The license, two lines below, is guarded against null.
\<close>

theorem normalize_entry_null_owner_raises:
  "normalize_entry null_owner_entry = Inl AttributeError"
  by (simp add: null_owner_entry_def normalizer_defs u_def)

text \<open>
  Claim C5.  The normalizer detects the shape by the presence of the wrapper key only.
  When the key \<open>repo\<close> is present, its value is the repository source and the sibling
  \<open>starred_at\<close> value (null when there is none) is the record's \<open>starred_at\<close>; when it is
  absent, the whole entry is the repository source and \<open>starred_at\<close> is null.  On the two
  entries of the specification's example this gives exactly two records: the first with
  name \<open>a/b\<close>, the wrapper's \<open>starred_at\<close> and 5 stars, the second with name \<open>c/d\<close>, a
  null \<open>starred_at\<close> and 0 stars.
\<close>

theorem normalize_shape_detection:
  "(\<forall>r. map_of entry (u ''repo'') = Some r \<longrightarrow>
        normalize_entry (JObj entry) = make_repo_data r (py_get entry (u ''starred_at'') JNull))
   \<and> (map_of entry (u ''repo'') = None \<longrightarrow>
        normalize_entry (JObj entry) = make_repo_data (JObj entry) JNull)
   \<and> (\<forall>d nm ur. repo_source entry = JObj d
          \<and> map_of d (u ''full_name'') = Some nm \<and> map_of d (u ''html_url'') = Some ur
          \<and> owner_ok d \<and> license_ok d \<longrightarrow>
        (\<exists>rd. normalize_entry (JObj entry) = Inr rd \<and> name rd = nm \<and> url rd = ur
           \<and> stars rd = py_get d (u ''stargazers_count'') (JInt 0)
           \<and> starred_at rd =
                (case map_of entry (u ''repo'') of
                   None \<Rightarrow> JNull
                 | Some r \<Rightarrow> py_get entry (u ''starred_at'') JNull)))
   \<and> normalize_all [wrapper_entry, bare_entry] =
       Inr [\<lparr> name = JStr (u ''a/b''), description = JNull, url = JStr (u ''https://x''),
               language = JNull, stars = JInt 5, forks = JInt 0, open_issues = JInt 0,
               topics = JList [], created_at = JNull, updated_at = JNull,
               starred_at = JStr (u ''2024-01-01T00:00:00Z''), archived = JBool False,
               owner = JNull, owner_type = JNull, license = JNull, homepage = JNull \<rparr>,
            \<lparr> name = JStr (u ''c/d''), description = JNull, url = JStr (u ''https://y''),
               language = JNull, stars = JInt 0, forks = JInt 0, open_issues = JInt 0,
               topics = JList [], created_at = JNull, updated_at = JNull,
               starred_at = JNull, archived = JBool False,
               owner = JNull, owner_type = JNull, license = JNull, homepage = JNull \<rparr>]"
proof (intro conjI allI impI)
  fix r assume "map_of entry (u ''repo'') = Some r"
  then show "normalize_entry (JObj entry) = make_repo_data r (py_get entry (u ''starred_at'') JNull)"
    by (simp add: normalize_entry_def)
next
  assume "map_of entry (u ''repo'') = None"
  then show "normalize_entry (JObj entry) = make_repo_data (JObj entry) JNull"
    by (simp add: normalize_entry_def)
next
  fix d nm ur
  assume a: "repo_source entry = JObj d
          \<and> map_of d (u ''full_name'') = Some nm \<and> map_of d (u ''html_url'') = Some ur
          \<and> owner_ok d \<and> license_ok d"
  let ?st = "case map_of entry (u ''repo'') of
               None \<Rightarrow> JNull | Some r \<Rightarrow> py_get entry (u ''starred_at'') JNull"
  have n: "normalize_entry (JObj entry) = make_repo_data (JObj d) ?st"
    using a by (auto simp: repo_source_def normalize_entry_def split: option.splits)
  from a have "map_of d (u ''full_name'') = Some nm" "map_of d (u ''html_url'') = Some ur"
    "owner_ok d" "license_ok d" by simp_all
  from make_repo_data_ok[OF this, of ?st]
  obtain rd where rd: "make_repo_data (JObj d) ?st = Inr rd" "name rd = nm" "url rd = ur"
    "starred_at rd = ?st"
    and tab: "\<forall>(k, f, dflt) \<in> set optional_fields.
                (map_of d k = None \<longrightarrow> f rd = dflt) \<and> (\<forall>v. map_of d k = Some v \<longrightarrow> f rd = v)"
    by blast
  from tab have "stars rd = py_get d (u ''stargazers_count'') (JInt 0)"
    by (simp add: optional_fields_def py_get_def split: option.splits)
  with n rd show "\<exists>rd. normalize_entry (JObj entry) = Inr rd \<and> name rd = nm \<and> url rd = ur
           \<and> stars rd = py_get d (u ''stargazers_count'') (JInt 0)
           \<and> starred_at rd = ?st"
    by simp
next
  show "normalize_all [wrapper_entry, bare_entry] =
       Inr [\<lparr> name = JStr (u ''a/b''), description = JNull, url = JStr (u ''https://x''),
               language = JNull, stars = JInt 5, forks = JInt 0, open_issues = JInt 0,
               topics = JList [], created_at = JNull, updated_at = JNull,
               starred_at = JStr (u ''2024-01-01T00:00:00Z''), archived = JBool False,
               owner = JNull, owner_type = JNull, license = JNull, homepage = JNull \<rparr>,
            \<lparr> name = JStr (u ''c/d''), description = JNull, url = JStr (u ''https://y''),
               language = JNull, stars = JInt 0, forks = JInt 0, open_issues = JInt 0,
               topics = JList [], created_at = JNull, updated_at = JNull,
               starred_at = JNull, archived = JBool False,
               owner = JNull, owner_type = JNull, license = JNull, homepage = JNull \<rparr>]"
    by (simp add: wrapper_entry_def bare_entry_def normalizer_defs u_def)
qed

theorem normalize_shape_detection_witness:
  "(\<exists>rd. normalize_entry (JObj lone_wrapper_fields) = Inr rd \<and> name rd = JStr (u ''a/b'')
        \<and> stars rd = JInt 5 \<and> starred_at rd = JNull)
   \<and> (\<exists>rd. normalize_entry (JObj bare_fields) = Inr rd \<and> name rd = JStr (u ''c/d'')
        \<and> stars rd = JInt 0 \<and> starred_at rd = JNull)
   \<and> normalize_entry (JObj bare_fields) = make_repo_data (JObj bare_fields) JNull"
proof -
  let ?d = "[(u ''full_name'', JStr (u ''a/b'')), (u ''html_url'', JStr (u ''https://x'')),
             (u ''stargazers_count'', JInt 5)]"
  have w: "repo_source lone_wrapper_fields = JObj ?d
          \<and> map_of ?d (u ''full_name'') = Some (JStr (u ''a/b''))
          \<and> map_of ?d (u ''html_url'') = Some (JStr (u ''https://x''))
          \<and> owner_ok ?d \<and> license_ok ?d"
    by (simp add: repo_source_def lone_wrapper_fields_def owner_ok_def license_ok_def u_def)
  have b: "repo_source bare_fields = JObj bare_fields
          \<and> map_of bare_fields (u ''full_name'') = Some (JStr (u ''c/d''))
          \<and> map_of bare_fields (u ''html_url'') = Some (JStr (u ''https://y''))
          \<and> owner_ok bare_fields \<and> license_ok bare_fields"
    by (simp add: repo_source_def bare_fields_def owner_ok_def license_ok_def u_def)
  have bn: "map_of bare_fields (u ''repo'') = None"
    by (simp add: bare_fields_def u_def)
  note tw = normalize_shape_detection[of lone_wrapper_fields]
  note tb = normalize_shape_detection[of bare_fields]
  from tw w obtain rd where
    "normalize_entry (JObj lone_wrapper_fields) = Inr rd" "name rd = JStr (u ''a/b'')"
    "stars rd = py_get ?d (u ''stargazers_count'') (JInt 0)"
    "starred_at rd = (case map_of lone_wrapper_fields (u ''repo'') of
                        None \<Rightarrow> JNull
                      | Some r \<Rightarrow> py_get lone_wrapper_fields (u ''starred_at'') JNull)"
    by blast
  then have 1: "\<exists>rd. normalize_entry (JObj lone_wrapper_fields) = Inr rd \<and> name rd = JStr (u ''a/b'')
        \<and> stars rd = JInt 5 \<and> starred_at rd = JNull"
    by (simp add: py_get_def lone_wrapper_fields_def u_def)
  from tb b obtain rd where
    "normalize_entry (JObj bare_fields) = Inr rd" "name rd = JStr (u ''c/d'')"
    "stars rd = py_get bare_fields (u ''stargazers_count'') (JInt 0)"
    "starred_at rd = (case map_of bare_fields (u ''repo'') of
                        None \<Rightarrow> JNull
                      | Some r \<Rightarrow> py_get bare_fields (u ''starred_at'') JNull)"
    by blast
  then have 2: "\<exists>rd. normalize_entry (JObj bare_fields) = Inr rd \<and> name rd = JStr (u ''c/d'')
        \<and> stars rd = JInt 0 \<and> starred_at rd = JNull"
    by (simp add: py_get_def bare_fields_def u_def)
  have 3: "normalize_entry (JObj bare_fields) = make_repo_data (JObj bare_fields) JNull"
    using tb bn by blast
  from 1 2 3 show ?thesis by blast
qed

section \<open>Theorems: display width and padding\<close>

lemma display_width_loop_sum:
  "display_width_loop ea s w = w + sum_list (map (spec_char_width ea) s)"
  by (induction s arbitrary: w) (auto simp: spec_char_width_def)

lemma display_width_spec: "display_width ea s = spec_display_width ea s"
  by (simp add: display_width_def spec_display_width_def display_width_loop_sum)

lemma display_width_append:
  "display_width ea (a @ b) = display_width ea a + display_width ea b"
  by (simp add: display_width_spec spec_display_width_def)

lemma ascii_narrowD: "ascii_narrow ea \<Longrightarrow> 0x20 \<le> c \<Longrightarrow> c < 0x7F \<Longrightarrow> ea c = EA_Na"
  unfolding ascii_narrow_def list_all_iff set_upt by simp

lemma ascii_narrow_example: "ascii_narrow ea_example"
  unfolding ascii_narrow_def list_all_iff set_upt by (simp add: ea_example_def)

lemma spec_char_width_ascii:
  "ascii_narrow ea \<Longrightarrow> 0x20 \<le> c \<Longrightarrow> c < 0x7F \<Longrightarrow> spec_char_width ea c = 1"
  using ascii_narrowD[of ea c] by (simp add: spec_char_width_def)

lemma display_width_spaces:
  "ascii_narrow ea \<Longrightarrow> display_width ea (replicate n 0x20) = n"
  by (induction n) (simp_all add: display_width_spec spec_display_width_def spec_char_width_ascii)

lemma py_repeat_space: "py_repeat (u '' '') n = replicate (nat n) 0x20"
  by (induction "nat n" arbitrary: n) (auto simp: py_repeat_def u_def)

lemma three_spaces: "replicate 3 x = [x, x, x]"
  by (simp add: numeral_3_eq_3)

text \<open>
  Claim C3.  For every string, \<open>display_width\<close> is the sum over its characters of 0 for
  a variation selector (U+FE00 to U+FE0F), 0 for U+200D, 2 for a character of East-Asian
  width Wide or Fullwidth, 2 for a code point above 0x1F300 and 1 for any other
  character.  Hence a string of ASCII letters (narrow in the Unicode table) has its
  length as width, and a string of variation selectors has width 0.
\<close>

theorem display_width_sum:
  "display_width ea s = spec_display_width ea s
   \<and> (ascii_narrow ea \<and> list_all ascii_letter s \<longrightarrow> display_width ea s = length s)
   \<and> (list_all variation_selector s \<longrightarrow> display_width ea s = 0)"
proof (intro conjI impI)
  show "display_width ea s = spec_display_width ea s" by (rule display_width_spec)
next
  assume a: "ascii_narrow ea \<and> list_all ascii_letter s"
  then have "\<forall>c \<in> set s. spec_char_width ea c = 1"
    by (auto simp: list_all_iff ascii_letter_def spec_char_width_ascii)
  then have "sum_list (map (spec_char_width ea) s) = length s"
    by (induction s) simp_all
  then show "display_width ea s = length s"
    by (simp add: display_width_spec spec_display_width_def)
next
  assume "list_all variation_selector s"
  then have "\<forall>c \<in> set s. spec_char_width ea c = 0"
    by (auto simp: list_all_iff variation_selector_def spec_char_width_def)
  then show "display_width ea s = 0"
    by (simp add: display_width_spec spec_display_width_def)
qed

theorem display_width_sum_witness:
  "ascii_narrow ea_example \<and> list_all ascii_letter (u ''Stars'')
   \<and> display_width ea_example (u ''Stars'') = 5
   \<and> list_all variation_selector [0xFE0F, 0xFE00]
   \<and> display_width ea_example [0xFE0F, 0xFE00] = 0
   \<and> display_width ea_example [0x41, 0x1100, 0x200D, 0x1F525, 0xFE0F] = 5"
proof -
  have l: "list_all ascii_letter (u ''Stars'')" by (simp add: ascii_letter_def u_def)
  have v: "list_all variation_selector [0xFE0F, 0xFE00]" by (simp add: variation_selector_def)
  have m: "spec_display_width ea_example [0x41, 0x1100, 0x200D, 0x1F525, 0xFE0F] = 5"
    by (simp add: spec_display_width_def spec_char_width_def ea_example_def)
  show ?thesis
    using display_width_sum[of ea_example "u ''Stars''"]
      display_width_sum[of ea_example "[0xFE0F, 0xFE00]"]
      display_width_sum[of ea_example "[0x41, 0x1100, 0x200D, 0x1F525, 0xFE0F]"]
      ascii_narrow_example l v m
    by (simp add: u_def)
qed

text \<open>
  Claim C4.  When the display width of the content is at most the target width,
  \<open>pad_line\<close> returns the content followed by spaces, and the display width of the
  returned line is exactly the target; \<open>pad_line("AB", 5)\<close> is \<open>AB\<close> followed by three
  spaces.  The space and the letters are narrow in the Unicode table.
\<close>

theorem pad_line_exact:
  assumes "ascii_narrow ea" and "int (display_width ea content) \<le> total_width"
  shows "pad_line ea content total_width =
           content @ replicate (nat (total_width - int (display_width ea content))) 0x20
         \<and> int (display_width ea (pad_line ea content total_width)) = total_width
         \<and> pad_line ea (u ''AB'') 5 = u ''AB   ''"
proof -
  have ab: "display_width ea (u ''AB'') = 2"
    using assms(1) by (simp add: display_width_spec spec_display_width_def spec_char_width_ascii u_def)
  have p: "pad_line ea c w = c @ replicate (nat (w - int (display_width ea c))) 0x20" for c w
    by (simp add: pad_line_def py_repeat_space)
  have "int (display_width ea (pad_line ea content total_width)) = total_width"
    using assms by (simp add: p display_width_append display_width_spaces)
  moreover have "pad_line ea (u ''AB'') 5 = u ''AB   ''"
    by (simp add: p ab three_spaces) (simp add: u_def)
  ultimately show ?thesis by (simp add: p)
qed

theorem pad_line_exact_witness:
  "ascii_narrow ea_example \<and> int (display_width ea_example (u ''a/b'')) \<le> 6
   \<and> pad_line ea_example (u ''a/b'') 6 = u ''a/b   ''
   \<and> int (display_width ea_example (pad_line ea_example (u ''a/b'') 6)) = 6
   \<and> pad_line ea_example (u ''AB'') 5 = u ''AB   ''"
proof -
  have w: "display_width ea_example (u ''a/b'') = 3"
    by (simp add: display_width_def ea_example_def u_def)
  have h: "int (display_width ea_example (u ''a/b'')) \<le> 6" by (simp add: w)
  note t = pad_line_exact[OF ascii_narrow_example h]
  have a: "pad_line ea_example (u ''a/b'') 6 = u ''a/b   ''"
    using t unfolding w by (simp add: three_spaces u_def)
  have b: "int (display_width ea_example (pad_line ea_example (u ''a/b'') 6)) = 6"
    using t by blast
  have c: "pad_line ea_example (u ''AB'') 5 = u ''AB   ''"
    using t by blast
  show ?thesis
    using ascii_narrow_example h a b c by blast
qed

text \<open>
  Claim C10.  When the display width of the content exceeds the target width,
  \<open>pad_line\<close> returns the content unchanged: the negative padding amount gives no
  space, nothing is raised and nothing is cut.
\<close>

theorem pad_line_overlong:
  assumes "total_width < int (display_width ea content)"
  shows "pad_line ea content total_width = content"
  using assms by (simp add: pad_line_def py_repeat_def)

theorem pad_line_overlong_witness:
  "3 < int (display_width ea_example (u ''ABCDEF'')) \<and> pad_line ea_example (u ''ABCDEF'') 3 = u ''ABCDEF''"
proof -
  have h: "3 < int (display_width ea_example (u ''ABCDEF''))"
    by (simp add: display_width_def ea_example_def u_def)
  show ?thesis using pad_line_overlong[OF h] h by simp
qed

section \<open>Theorems: fetch before export\<close>





section \<open>Theorems: the language histogram\<close>

lemma key_eq_sym: "key_eq a b = key_eq b a"
  by (cases a; cases b; auto)

lemma key_eq_trans: "key_eq a b \<Longrightarrow> key_eq b c \<Longrightarrow> key_eq a c"
  by (cases a; cases b; cases c; auto split: if_splits)

lemma key_eq_cong: "key_eq k k' \<Longrightarrow> key_eq v k = key_eq v k'"
  using key_eq_sym key_eq_trans by blast

lemma histogram_total_add: "histogram_total (counter_add k h) = histogram_total h + 1"
  by (induction h) (auto simp: histogram_total_def)

lemma counter_get_add:
  "counter_get (counter_add k h) v = counter_get h v + (if key_eq v k then 1 else 0)"
proof (induction h)
  case Nil
  show ?case by simp
next
  case (Cons p h)
  obtain k' n where p: "p = (k', n)" by (cases p)
  show ?case
  proof (cases "key_eq k k'")
    case True
    then show ?thesis using key_eq_cong[OF True, of v] by (simp add: p)
  next
    case False
    then have "key_eq v k' \<Longrightarrow> \<not> key_eq v k"
      using key_eq_sym key_eq_trans by blast
    then show ?thesis using False Cons.IH by (auto simp: p)
  qed
qed

lemma counter_update_hashable:
  "list_all hashable ks \<Longrightarrow>
     \<exists>h'. counter_update ks h = Inr h'
        \<and> histogram_total h' = histogram_total h + length ks
        \<and> (\<forall>v. counter_get h' v = counter_get h v + length (filter (key_eq v) ks))"
proof (induction ks arbitrary: h)
  case Nil
  then show ?case by simp
next
  case (Cons k ks)
  then have "list_all hashable ks" and hk: "hashable k" by simp_all
  from Cons.IH[OF this(1), of "counter_add k h"]
  obtain h' where h': "counter_update ks (counter_add k h) = Inr h'"
    "histogram_total h' = histogram_total (counter_add k h) + length ks"
    "\<forall>v. counter_get h' v = counter_get (counter_add k h) v + length (filter (key_eq v) ks)"
    by blast
  show ?case
    using h' hk by (simp add: histogram_total_add counter_get_add)
qed

lemma filter_map_language:
  "length (filter P (map language (filter Q rs))) = length (filter (\<lambda>r. Q r \<and> P (language r)) rs)"
  by (induction rs) auto

lemma truthy_typed:
  "language_typed r \<Longrightarrow> truthy (language r) = (language r \<noteq> JNull \<and> language r \<noteq> JStr [])"
  by (cases "language r") (auto simp: language_typed_def)

lemma truthy_languages_typed:
  "list_all language_typed repos \<Longrightarrow> truthy_languages repos = named_languages repos"
  by (induction repos) (auto simp: truthy_languages_def named_languages_def truthy_typed)

text \<open>
  Claim C6, as amended.  For every sequence of records whose languages can be keys of a
  dictionary (null and strings in particular), the histogram is built; it counts, for
  each value, the records whose language is truthy and equal to it, so that null and
  the empty string are never counted; and the sum of its counts is the number of
  records whose language is truthy.  When every language is null or a string, that is
  the number of records whose language is neither null nor the empty string.
\<close>

theorem languages_histogram:
  assumes "list_all (\<lambda>r. hashable (language r)) repos"
  shows "\<exists>h. languages repos = Inr h
           \<and> histogram_total h = truthy_languages repos
           \<and> (list_all language_typed repos \<longrightarrow> histogram_total h = named_languages repos)
           \<and> (\<forall>v. counter_get h v =
                    length (filter (\<lambda>r. truthy (language r) \<and> key_eq v (language r)) repos))
           \<and> (\<forall>s. counter_get h (JStr s) =
                    (if s = [] then 0 else length (filter (\<lambda>r. language r = JStr s) repos)))
           \<and> counter_get h JNull = 0"
proof -
  let ?ks = "map language (filter (\<lambda>r. truthy (language r)) repos)"
  have "list_all hashable ?ks"
    using assms by (induction repos) auto
  from counter_update_hashable[OF this, of "[]"]
  obtain h where h: "counter_update ?ks [] = Inr h"
    "histogram_total h = length ?ks"
    "\<forall>v. counter_get h v = length (filter (key_eq v) ?ks)"
    by (auto simp: histogram_total_def)
  have cnt: "counter_get h v =
      length (filter (\<lambda>r. truthy (language r) \<and> key_eq v (language r)) repos)" for v
    using h(3) by (simp add: filter_map_language)
  have str: "counter_get h (JStr s) =
      (if s = [] then 0 else length (filter (\<lambda>r. language r = JStr s) repos))" for s
  proof -
    have eq: "(\<lambda>r. truthy (language r) \<and> key_eq (JStr s) (language r))
            = (\<lambda>r. s \<noteq> [] \<and> language r = JStr s)"
    proof (rule ext)
      fix r show "(truthy (language r) \<and> key_eq (JStr s) (language r))
                   = (s \<noteq> [] \<and> language r = JStr s)"
        by (cases "language r") auto
    qed
    show ?thesis unfolding cnt eq by simp
  qed
  have nul: "counter_get h JNull = 0"
  proof -
    have eq: "(\<lambda>r. truthy (language r) \<and> key_eq JNull (language r)) = (\<lambda>r. False)"
    proof (rule ext)
      fix r show "(truthy (language r) \<and> key_eq JNull (language r)) = False"
        by (cases "language r") auto
    qed
    show ?thesis unfolding cnt eq by simp
  qed
  have tot: "histogram_total h = truthy_languages repos"
    using h(2) by (simp add: truthy_languages_def)
  have typed: "list_all language_typed repos \<longrightarrow> histogram_total h = named_languages repos"
    using tot truthy_languages_typed by simp
  show ?thesis
    using h(1) tot typed cnt str nul by (simp add: languages_def Counter_def)
qed

theorem languages_histogram_witness:
  "list_all (\<lambda>r. hashable (language r)) language_examples
   \<and> list_all language_typed language_examples
   \<and> languages language_examples = Inr [(JStr (u ''Go''), 2), (JStr (u ''Rust''), 1)]
   \<and> truthy_languages language_examples = 3
   \<and> named_languages language_examples = 3
   \<and> (\<exists>h. languages language_examples = Inr h \<and> histogram_total h = 3
          \<and> counter_get h (JStr (u ''Go'')) = 2)"
proof -
  have hy: "list_all (\<lambda>r. hashable (language r)) language_examples"
    by (simp add: language_examples_def repo_example_def)
  have ty: "list_all language_typed language_examples"
    by (simp add: language_examples_def repo_example_def language_typed_def)
  have ev: "languages language_examples = Inr [(JStr (u ''Go''), 2), (JStr (u ''Rust''), 1)]"
    by (simp add: language_examples_def repo_example_def languages_def Counter_def u_def)
  have tl: "truthy_languages language_examples = 3"
    by (simp add: truthy_languages_def language_examples_def repo_example_def u_def)
  from languages_histogram[OF hy] obtain h where
    h: "languages language_examples = Inr h" "histogram_total h = truthy_languages language_examples"
      "list_all language_typed language_examples \<longrightarrow> histogram_total h = named_languages language_examples"
    by blast
  have nl: "named_languages language_examples = 3"
    using h(2,3) ty tl by simp
  have "counter_get h (JStr (u ''Go'')) = 2"
    using h(1) ev by (auto simp: u_def)
  with hy ty ev tl nl h show ?thesis by auto
qed

text \<open>
  Claim C6 as stated fails: a record whose language is the empty string is not null,
  yet \<open>if r["language"]\<close> leaves it out of the histogram, whose total is then 0 for one
  record with a non-null language.
\<close>

theorem languages_empty_string_excluded:
  "map_sum id histogram_total (languages [repo_example (u ''a/d'') (JStr []) JNull]) = Inr 0
   \<and> non_null_languages [repo_example (u ''a/d'') (JStr []) JNull] = 1"
  by (simp add: languages_def Counter_def repo_example_def histogram_total_def non_null_languages_def)

section \<open>Theorems: the recency ranking\<close>

lemma updated_key_is_str:
  "updated_at r = JNull \<or> is_str (updated_at r) \<Longrightarrow> is_str (updated_key r)"
  by (cases "updated_at r") (auto simp: updated_key_def)

lemma sorted_reverse_strings:
  assumes "list_all (\<lambda>x. is_str (key x)) xs"
  shows "\<exists>ys. sorted_reverse key xs = Inr ys \<and> mset ys = mset xs
           \<and> sorted_wrt (\<lambda>a b. str_of (key b) \<le> str_of (key a)) ys"
proof (cases "length xs \<le> 1")
  case True
  then have "xs = [] \<or> (\<exists>x. xs = [x])"
    by (cases xs) auto
  then show ?thesis using True by (auto simp: sorted_reverse_def)
next
  case False
  let ?f = "\<lambda>x. str_of (key x)"
  let ?ys = "rev (sort_key ?f (rev xs))"
  have "sorted_reverse key xs = Inr ?ys"
    using False assms by (simp add: sorted_reverse_def)
  moreover have "mset ?ys = mset xs" by simp
  moreover have "sorted_wrt (\<lambda>a b. ?f b \<le> ?f a) ?ys"
    using sorted_sort_key[of ?f "rev xs"] by (simp add: sorted_wrt_rev sorted_map)
  ultimately show ?thesis by blast
qed

lemma str_le_Nil: "(s::nat list) \<le> [] \<Longrightarrow> s = []"
  by (cases s) simp_all

text \<open>
  Claim C7.  For every sequence of records whose \<open>updated_at\<close> is null or a string, the
  recency ranking is the records sorted in descending order of \<open>updated_at\<close>, a null
  counting as the empty string; every record with a null \<open>updated_at\<close> comes after every
  record with a non-empty timestamp; and the caller keeps the first 10.
\<close>

theorem recency_ranking:
  assumes "\<forall>r \<in> set repos. updated_at r = JNull \<or> is_str (updated_at r)"
  shows "\<exists>ys. sorted_by_updated repos = Inr ys \<and> by_updated repos = Inr (take 10 ys)
           \<and> mset ys = mset repos
           \<and> sorted_wrt (\<lambda>a b. str_of (updated_key b) \<le> str_of (updated_key a)) ys
           \<and> (\<forall>i j. i < length ys \<and> j < length ys \<and> updated_at (ys ! i) = JNull
                  \<and> is_str (updated_at (ys ! j)) \<and> updated_at (ys ! j) \<noteq> JStr []
                \<longrightarrow> j < i)"
proof -
  have "list_all (\<lambda>r. is_str (updated_key r)) repos"
    using assms by (auto simp: list_all_iff updated_key_is_str)
  from sorted_reverse_strings[OF this]
  obtain ys where ys: "sorted_by_updated repos = Inr ys" "mset ys = mset repos"
    "sorted_wrt (\<lambda>a b. str_of (updated_key b) \<le> str_of (updated_key a)) ys"
    by (auto simp: sorted_by_updated_def)
  have "j < i" if h: "i < length ys" "j < length ys" "updated_at (ys ! i) = JNull"
    "is_str (updated_at (ys ! j))" "updated_at (ys ! j) \<noteq> JStr []" for i j
  proof (rule ccontr)
    assume "\<not> j < i"
    moreover have "i \<noteq> j" using h(3,4) by auto
    ultimately have "i < j" by simp
    then have "str_of (updated_key (ys ! j)) \<le> str_of (updated_key (ys ! i))"
      using ys(3) h(2) by (simp add: sorted_wrt_iff_nth_less)
    moreover have "str_of (updated_key (ys ! i)) = []"
      using h(3) by (simp add: updated_key_def)
    moreover have "str_of (updated_key (ys ! j)) \<noteq> []"
      using h(4,5) by (cases "updated_at (ys ! j)") (auto simp: updated_key_def)
    ultimately show False using str_le_Nil by auto
  qed
  then show ?thesis using ys by (auto simp: by_updated_def)
qed

theorem recency_ranking_witness:
  "list_all (\<lambda>r. updated_at r = JNull \<or> is_str (updated_at r)) recency_examples
   \<and> sorted_by_updated recency_examples =
       Inr [repo_example (u ''a/c'') JNull (JStr (u ''2024-02-01T00:00:00Z'')),
            repo_example (u ''a/b'') JNull (JStr (u ''2023-07-01T00:00:00Z'')),
            repo_example (u ''a/a'') JNull JNull]
   \<and> (\<exists>ys. by_updated recency_examples = Inr (take 10 ys) \<and> mset ys = mset recency_examples)"
proof -
  have hy: "\<forall>r \<in> set recency_examples. updated_at r = JNull \<or> is_str (updated_at r)"
    by (simp add: recency_examples_def repo_example_def)
  have ev: "sorted_by_updated recency_examples =
       Inr [repo_example (u ''a/c'') JNull (JStr (u ''2024-02-01T00:00:00Z'')),
            repo_example (u ''a/b'') JNull (JStr (u ''2023-07-01T00:00:00Z'')),
            repo_example (u ''a/a'') JNull JNull]"
    by (simp add: sorted_by_updated_def sorted_reverse_def recency_examples_def repo_example_def
          updated_key_def u_def)
  from recency_ranking[OF hy] have
    "\<exists>ys. by_updated recency_examples = Inr (take 10 ys) \<and> mset ys = mset recency_examples"
    by blast
  with hy ev show ?thesis by (simp add: list_all_iff)
qed

section \<open>Theorems: truncation in the report\<close>

lemma ljust_take:
  "ljust w (take w n) = take w n @ replicate (w - length n) 0x20"
  by (simp add: ljust_def min_def)

lemma length_ljust_take: "length (ljust w (take w n)) = w"
  by (simp add: ljust_def)

lemma take_name_column:
  "take (2 + w) (u ''  '' @ ljust w (take w n) @ rest) =
     u ''  '' @ take w n @ replicate (w - length n) 0x20"
proof -
  have "length (u ''  '' @ ljust w (take w n)) = 2 + w"
    by (simp add: length_ljust_take u_def)
  then have "take (2 + w) ((u ''  '' @ ljust w (take w n)) @ rest) = u ''  '' @ ljust w (take w n)"
    by (metis append_eq_conv_conj)
  then show ?thesis by (simp add: ljust_take)
qed

text \<open>
  Claim C8, as amended.  For a record with a string name, an integer number of stars
  and an \<open>updated_at\<close> that is null or a string: the line of the popularity panel shows
  the first 45 characters of the name, padded to 45, and does not depend on the rest of
  the name; the line of the recency panel does the same with 55; the full listing
  prints the name whole; and a non-empty description is printed cut to 74 characters,
  followed by an ellipsis exactly when its length exceeds 74.
\<close>

theorem report_truncation:
  assumes "name r = JStr n" and "stars r = JInt k"
    and "updated_at r = JNull \<or> is_str (updated_at r)"
  shows "(\<exists>l. popular_line r = Inr l
            \<and> take 47 l = u ''  '' @ take 45 n @ replicate (45 - length n) 0x20
            \<and> popular_line (r\<lparr>name := JStr (take 45 n)\<rparr>) = Inr l)
       \<and> (\<exists>l. recent_line r = Inr l
            \<and> take 57 l = u ''  '' @ take 55 n @ replicate (55 - length n) 0x20
            \<and> recent_line (r\<lparr>name := JStr (take 55 n)\<rparr>) = Inr l)
       \<and> listing_name_line r = Inr (u ''  '' @ [0x1F4C1, 0x20] @ n)
       \<and> (\<forall>d. description r = JStr d \<and> d \<noteq> [] \<longrightarrow>
             listing_desc_line r =
               Inr (Some (u ''     '' @ take 74 d @ (if 74 < length d then u ''...'' else []))))
       \<and> (description r = JNull \<or> description r = JStr [] \<longrightarrow> listing_desc_line r = Inr None)"
proof (intro conjI)
  show "\<exists>l. popular_line r = Inr l
            \<and> take 47 l = u ''  '' @ take 45 n @ replicate (45 - length n) 0x20
            \<and> popular_line (r\<lparr>name := JStr (take 45 n)\<rparr>) = Inr l"
    using assms(1,2) take_name_column[of 45 n]
    by (simp add: popular_line_def)
next
  have "is_str (updated_key r)"
    using assms(3) by (rule updated_key_is_str)
  then obtain up where up: "updated_key r = JStr up"
    by (cases "updated_key r") auto
  then have up': "updated_key (r\<lparr>name := JStr (take 55 n)\<rparr>) = JStr up"
    by (auto simp: updated_key_def split: if_splits)
  show "\<exists>l. recent_line r = Inr l
            \<and> take 57 l = u ''  '' @ take 55 n @ replicate (55 - length n) 0x20
            \<and> recent_line (r\<lparr>name := JStr (take 55 n)\<rparr>) = Inr l"
    using assms(1) up up' take_name_column[of 55 n]
    by (simp add: recent_line_def)
next
  show "listing_name_line r = Inr (u ''  '' @ [0x1F4C1, 0x20] @ n)"
    using assms(1) by (simp add: listing_name_line_def)
next
  show "\<forall>d. description r = JStr d \<and> d \<noteq> [] \<longrightarrow>
             listing_desc_line r =
               Inr (Some (u ''     '' @ take 74 d @ (if 74 < length d then u ''...'' else [])))"
    by (simp add: listing_desc_line_def)
next
  show "description r = JNull \<or> description r = JStr [] \<longrightarrow> listing_desc_line r = Inr None"
    by (auto simp: listing_desc_line_def)
qed

theorem report_truncation_witness:
  "name long_repo = JStr long_name \<and> stars long_repo = JInt 0
   \<and> (updated_at long_repo = JNull \<or> is_str (updated_at long_repo))
   \<and> popular_line long_repo =
       Inr (u ''  '' @ replicate 45 0x61 @ [0x20, 0x2B50, 0x20] @ replicate 9 0x20 @ u ''0'')
   \<and> recent_line long_repo = Inr (u ''  '' @ replicate 55 0x61 @ [0x20])
   \<and> listing_name_line long_repo = Inr (u ''  '' @ [0x1F4C1, 0x20] @ replicate 56 0x61)
   \<and> listing_desc_line long_repo = Inr (Some (u ''     '' @ replicate 74 0x62 @ u ''...''))"
proof -
  have n: "name long_repo = JStr long_name" and k: "stars long_repo = JInt 0"
    and up: "updated_at long_repo = JNull \<or> is_str (updated_at long_repo)"
    and d: "description long_repo = JStr long_description"
    by (simp_all add: long_repo_def repo_example_def)
  note t = report_truncation[OF n k up]
  have p: "popular_line long_repo =
       Inr (u ''  '' @ replicate 45 0x61 @ [0x20, 0x2B50, 0x20] @ replicate 9 0x20 @ u ''0'')"
    using n k
    by (simp add: popular_line_def ljust_def rjust_def format_comma_def long_name_def u_def)
  have rl: "recent_line long_repo = Inr (u ''  '' @ replicate 55 0x61 @ [0x20])"
    using n by (simp add: recent_line_def updated_key_def long_repo_def repo_example_def
        ljust_def long_name_def)
  have ln: "listing_name_line long_repo = Inr (u ''  '' @ [0x1F4C1, 0x20] @ replicate 56 0x61)"
    using t by (simp add: long_name_def)
  have ld: "listing_desc_line long_repo = Inr (Some (u ''     '' @ replicate 74 0x62 @ u ''...''))"
    using t d by (simp add: long_description_def)
  show ?thesis using n k up p rl ln ld by blast
qed

text \<open>
  Claim C8 as stated fails for the full listing: a name of 56 characters is printed with
  all its 56 characters, on a line of 60.
\<close>

theorem listing_name_not_truncated:
  "listing_name_line long_repo = Inr (u ''  '' @ [0x1F4C1, 0x20] @ long_name)
   \<and> length long_name = 56
   \<and> map_sum id length (listing_name_line long_repo) = Inr 60"
  by (simp add: listing_name_line_def long_repo_def repo_example_def long_name_def u_def)

end
